theory Spec2Isabelle
  imports Main
begin

section \<open>Text utilities (src/utils/CardUtils.ts)\<close>

text \<open>
  JavaScript strings are modelled as \<^typ>\<open>string\<close>, one \<^typ>\<open>char\<close> per code unit;
  a \<^typ>\<open>char\<close> is a code unit below 256.  \<open>String.prototype.trim\<close> and the regular
  expression class \<open>\s\<close> use the same set of white space (WhiteSpace and
  LineTerminator of ECMAScript); below 256 these are TAB, LF, VT, FF, CR, the space and
  the no-break space U+00A0.
\<close>

definition isWhiteSpace :: "char \<Rightarrow> bool" where
  "isWhiteSpace c =
     (c = CHR 0x09 \<or> c = CHR 0x0A \<or> c = CHR 0x0B \<or> c = CHR 0x0C \<or> c = CHR 0x0D \<or>
      c = CHR 0x20 \<or> c = CHR 0xA0)"

text \<open>The class \<open>[.!?]\<close> of \<open>extractTitle\<close>.\<close>

definition isSentenceEnd :: "char \<Rightarrow> bool" where
  "isSentenceEnd c = (c = CHR ''.'' \<or> c = CHR ''!'' \<or> c = CHR ''?'')"

text \<open>\<open>s.trim()\<close>: white space removed at both ends.\<close>

definition trim :: "string \<Rightarrow> string" where
  "trim s = rev (dropWhile isWhiteSpace (rev (dropWhile isWhiteSpace s)))"

text \<open>
  \<open>s.split(/P+/)\<close> for a character class \<open>P\<close>: the string is cut at every maximal run
  of characters of the class (the match is greedy); a run at the very start or the very
  end leaves an empty piece there, and the empty string gives the single piece \<open>""\<close>.
  The second argument is the piece being collected.
\<close>

function splitRuns :: "(char \<Rightarrow> bool) \<Rightarrow> string \<Rightarrow> string \<Rightarrow> string list" where
  "splitRuns P cur [] = [cur]"
| "splitRuns P cur (c # cs) =
     (if P c then cur # splitRuns P [] (dropWhile P cs)
      else splitRuns P (cur @ [c]) cs)"
  by pat_completeness auto
termination
  by (relation "measure (\<lambda>(P, cur, s). length s)")
     (auto simp: le_imp_less_Suc length_dropWhile_le)

text \<open>\<open>s.split("\n")\<close>, and any split at a one-character separator.\<close>

fun splitChar :: "char \<Rightarrow> string \<Rightarrow> string \<Rightarrow> string list" where
  "splitChar d cur [] = [cur]"
| "splitChar d cur (c # cs) =
     (if c = d then cur # splitChar d [] cs else splitChar d (cur @ [c]) cs)"

text \<open>
  \<open>a[0]\<close> on the result of a split.  A split never returns an empty array, so the first
  case is never taken by the callers below.
\<close>

fun first :: "string list \<Rightarrow> string" where
  "first [] = []"
| "first (a # as) = a"

text \<open>
  \<open>s.substring(start, end)\<close> on integer arguments: both are clamped into \<open>[0, s.length]\<close>
  and swapped when \<open>start > end\<close>.  \<open>s.substring(start)\<close> is \<open>substringFrom\<close>.
\<close>

definition clampIndex :: "string \<Rightarrow> int \<Rightarrow> nat" where
  "clampIndex s i = nat (min (max i 0) (int (length s)))"

definition substring :: "string \<Rightarrow> int \<Rightarrow> int \<Rightarrow> string" where
  "substring s start end' =
     (let finalStart = clampIndex s start;
          finalEnd = clampIndex s end';
          from = min finalStart finalEnd;
          to = max finalStart finalEnd
      in take (to - from) (drop from s))"

definition substringFrom :: "string \<Rightarrow> int \<Rightarrow> string" where
  "substringFrom s start = substring s start (int (length s))"

definition newline :: char where
  "newline = CHR 0x0A"

definition extractTitle :: "string \<Rightarrow> string" where
  "extractTitle content' =
     (let lines = splitChar newline [] (trim content');
          firstLine = trim (first lines)
      in if length firstLine > 0 then
           (if length firstLine \<le> 50 then firstLine
            else
              (let sentences = splitRuns isSentenceEnd [] firstLine;
                   firstSentence = trim (first sentences)
               in if length firstSentence \<le> 50 then firstSentence
                  else substring firstSentence 0 47 @ ''...''))
         else ''Untitled Card'')"

text \<open>\<open>countWords\<close> of CardUtils.ts; \<open>!content\<close> holds of the empty string only.\<close>

definition countWords :: "string \<Rightarrow> int" where
  "countWords content' =
     (if content' = [] \<or> length (trim content') = 0 then 0
      else (let words = splitRuns isWhiteSpace [] (trim content') in int (length words)))"

text \<open>
  The private \<open>countWords\<close> of the in-memory \<open>CardManager\<close>:
  \<open>text.trim().split(/\s+/).filter((word) => word.length > 0).length\<close>.
\<close>

definition countWordsInMemory :: "string \<Rightarrow> int" where
  "countWordsInMemory text' =
     int (length (filter (\<lambda>word. length word > 0) (splitRuns isWhiteSpace [] (trim text'))))"


section \<open>Data model (src/types/WritingCard.ts)\<close>

text \<open>
  A \<open>Date\<close> is modelled as the instant it denotes (a natural number).  An optional
  field is an \<open>option\<close>.  The field \<open>id\<close> is \<open>card_id\<close> and \<open>chunk_id\<close>, the fields
  \<open>x\<close> and \<open>y\<close> are \<open>pos_x\<close> and \<open>pos_y\<close>, and \<open>type\<close> is \<open>layoutType\<close>.
\<close>

subsection \<open>Numbers\<close>

text \<open>
  A JavaScript number is an IEEE double.  The numbers the code computes with (the
  geometry of a card, the columns and the spacing of a layout) are modelled as
  \<open>jsnum\<close>: \<open>Num n\<close> is the integer \<open>n\<close>, of magnitude at most \<open>2^53\<close>, where every integer
  is a double; \<open>Inexact\<close> stands for any number the model does not determine (a
  fraction, a larger magnitude, an infinity, \<open>NaN\<close>).  A sum or a product of two such
  integers is exact in doubles when it is again of magnitude at most \<open>2^53\<close>; otherwise,
  and whenever an operand is \<open>Inexact\<close>, the model gives \<open>Inexact\<close> and says nothing of
  the value.  Numbers that are only stored (\<open>wordCount\<close>, \<open>zIndex\<close>, \<open>priority\<close>) are
  integers.
\<close>

datatype jsnum = Num int | Inexact

definition safe :: "int \<Rightarrow> bool" where
  "safe n = (\<bar>n\<bar> \<le> 9007199254740992)"

definition num :: "int \<Rightarrow> jsnum" where
  "num n = (if safe n then Num n else Inexact)"

text \<open>\<open>a + b\<close> and \<open>a * b\<close>.\<close>

fun jsAdd :: "jsnum \<Rightarrow> jsnum \<Rightarrow> jsnum" where
  "jsAdd (Num a) (Num b) = (if safe a \<and> safe b then num (a + b) else Inexact)"
| "jsAdd a b = Inexact"

fun jsMul :: "jsnum \<Rightarrow> jsnum \<Rightarrow> jsnum" where
  "jsMul (Num a) (Num b) = (if safe a \<and> safe b then num (a * b) else Inexact)"
| "jsMul a b = Inexact"

text \<open>
  \<open>a % b\<close> takes the sign of \<open>a\<close>, and \<open>Math.floor(a / b)\<close> rounds the quotient down;
  on integers of magnitude at most \<open>2^53\<close> with \<open>b\<close> not \<open>0\<close> both are exact (the
  rounded quotient of two such integers never reaches the next integer).  With \<open>b = 0\<close>
  the results are \<open>NaN\<close> or an infinity.
\<close>

fun jsRem :: "jsnum \<Rightarrow> jsnum \<Rightarrow> jsnum" where
  "jsRem (Num a) (Num b) =
     (if safe a \<and> safe b \<and> b \<noteq> 0 then Num (sgn a * (\<bar>a\<bar> mod \<bar>b\<bar>)) else Inexact)"
| "jsRem a b = Inexact"

fun floorDiv :: "jsnum \<Rightarrow> jsnum \<Rightarrow> jsnum" where
  "floorDiv (Num a) (Num b) =
     (if safe a \<and> safe b \<and> b \<noteq> 0 then num (a div b) else Inexact)"
| "floorDiv a b = Inexact"

text \<open>
  \<open>n || d\<close> on a number that may be absent: absent and \<open>0\<close> are both falsy (and so is
  \<open>NaN\<close>, which is why nothing is said of an \<open>Inexact\<close> field).
\<close>

fun numberOr :: "jsnum option \<Rightarrow> jsnum \<Rightarrow> jsnum" where
  "numberOr None d = d"
| "numberOr (Some (Num v)) d = (if v = 0 then d else Num v)"
| "numberOr (Some Inexact) d = Inexact"

subsection \<open>Entities\<close>

datatype ChangeType = Create | Edit | Merge | Split

datatype CardStatus = Draft | Edited | Reviewed | Final

record VersionEntry =
  timestamp :: nat
  entry_content :: string
  author :: "string option"
  changeType :: ChangeType

record CardPosition =
  pos_x :: jsnum
  pos_y :: jsnum
  width :: jsnum
  height :: jsnum
  zIndex :: "int option"

record Metadata =
  wordCount :: int
  createdAt :: nat
  updatedAt :: nat
  chunkId :: "string option"
  color :: "string option"
  priority :: "int option"

record WritingCard =
  card_id :: string
  title :: string
  content :: string
  tags :: "string list"
  status :: CardStatus
  history :: "VersionEntry list"
  position :: CardPosition
  metadata :: Metadata

datatype LayoutType = Grid | Freeform | Linear

record ChunkLayout =
  layoutType :: LayoutType
  columns :: "jsnum option"
  spacing :: "jsnum option"
  autoArrange :: "bool option"

record ContentChunk =
  chunk_id :: string
  name :: string
  cardIds :: "string list"
  purpose :: string
  layout :: ChunkLayout

text \<open>\<open>Partial<WritingCard>\<close> and \<open>Partial<ContentChunk>\<close>: every field may be absent.\<close>

record CardPatch =
  p_id :: "string option"
  p_title :: "string option"
  p_content :: "string option"
  p_tags :: "string list option"
  p_status :: "CardStatus option"
  p_history :: "VersionEntry list option"
  p_position :: "CardPosition option"
  p_metadata :: "Metadata option"

record ChunkPatch =
  q_id :: "string option"
  q_name :: "string option"
  q_cardIds :: "string list option"
  q_purpose :: "string option"
  q_layout :: "ChunkLayout option"

definition emptyPatch :: CardPatch where
  "emptyPatch = \<lparr>p_id = None, p_title = None, p_content = None, p_tags = None,
     p_status = None, p_history = None, p_position = None, p_metadata = None\<rparr>"

definition emptyChunkPatch :: ChunkPatch where
  "emptyChunkPatch = \<lparr>q_id = None, q_name = None, q_cardIds = None, q_purpose = None,
     q_layout = None\<rparr>"

section \<open>The entity store (src/storage/CardStorage.ts) and the environment\<close>

text \<open>
  The two directories of JSON documents are maps from the id in the file name to the
  document (an id is taken as it is, as a UUID is; it is not read as a path);
  \<open>JSON.stringify\<close> followed by \<open>JSON.parse\<close> gives back a copy of the value,
  so nothing read from the store is shared with an object in memory.  I/O failures other
  than a missing file are outside the model, and so is the interleaving of concurrent
  calls: one operation runs at a time.  The clock and the random source are streams
  of the environment: the \<open>n\<close>-th evaluation of \<open>new Date()\<close> reads \<open>dates n\<close>, the
  \<open>n\<close>-th call of \<open>randomUUID()\<close> returns \<open>uuids n\<close>.
\<close>

record Store =
  cards :: "string \<rightharpoonup> WritingCard"
  chunks :: "string \<rightharpoonup> ContentChunk"
  dates :: "nat \<Rightarrow> nat"
  dateReads :: nat
  uuids :: "nat \<Rightarrow> string"
  uuidReads :: nat

datatype error = Error string

definition newDate :: "Store \<Rightarrow> nat \<times> Store" where
  "newDate s = (dates s (dateReads s), s\<lparr>dateReads := Suc (dateReads s)\<rparr>)"

definition generateCardId :: "Store \<Rightarrow> string \<times> Store" where
  "generateCardId s = (uuids s (uuidReads s), s\<lparr>uuidReads := Suc (uuidReads s)\<rparr>)"

definition saveCard :: "Store \<Rightarrow> WritingCard \<Rightarrow> Store" where
  "saveCard s crd = s\<lparr>cards := (cards s)(card_id crd \<mapsto> crd)\<rparr>"

definition loadCard :: "Store \<Rightarrow> string \<Rightarrow> WritingCard option" where
  "loadCard s i = cards s i"

definition deleteCardFile :: "Store \<Rightarrow> string \<Rightarrow> bool \<times> Store" where
  "deleteCardFile s i =
     (case cards s i of
        Some crd \<Rightarrow> (True, s\<lparr>cards := (cards s)(i := None)\<rparr>)
      | None \<Rightarrow> (False, s))"

definition saveChunk :: "Store \<Rightarrow> ContentChunk \<Rightarrow> Store" where
  "saveChunk s chunk = s\<lparr>chunks := (chunks s)(chunk_id chunk \<mapsto> chunk)\<rparr>"

definition loadChunk :: "Store \<Rightarrow> string \<Rightarrow> ContentChunk option" where
  "loadChunk s i = chunks s i"


section \<open>The card manager (src/services/CardManager.ts)\<close>

text \<open>
  An operation takes the store and returns its result with the store it leaves: an
  exception is \<open>Inl\<close>, and what was written before it was thrown stays written.
\<close>

definition defaultPosition :: CardPosition where
  "defaultPosition =
     \<lparr>pos_x = Num 0, pos_y = Num 0, width = Num 250, height = Num 200, zIndex = None\<rparr>"

text \<open>\<open>title || extractTitle(content)\<close>: an absent and an empty title are both falsy.\<close>

definition titleOr :: "string option \<Rightarrow> string \<Rightarrow> string" where
  "titleOr t d = (case t of None \<Rightarrow> d | Some v \<Rightarrow> if v = [] then d else v)"

definition createCard ::
  "Store \<Rightarrow> string \<Rightarrow> string option \<Rightarrow> string list option \<Rightarrow> CardPosition option
     \<Rightarrow> WritingCard \<times> Store" where
  "createCard s content' title' tags' position' =
     (let (i, s1) = generateCardId s;
          extractedTitle = titleOr title' (extractTitle content');
          wordCount' = countWords content';
          (t1, s2) = newDate s1;
          (t2, s3) = newDate s2;
          (t3, s4) = newDate s3;
          crd = \<lparr>card_id = i,
                 title = extractedTitle,
                 content = content',
                 tags = (case tags' of None \<Rightarrow> [] | Some ts \<Rightarrow> ts),
                 status = Draft,
                 history = [\<lparr>timestamp = t1, entry_content = content', author = None,
                             changeType = Create\<rparr>],
                 position = (case position' of None \<Rightarrow> defaultPosition | Some p \<Rightarrow> p),
                 metadata = \<lparr>wordCount = wordCount', createdAt = t2, updatedAt = t3,
                              chunkId = None, color = None, priority = None\<rparr>\<rparr>
      in (crd, saveCard s4 crd))"

text \<open>
  \<open>{...card, ...updates}\<close>: a field of the patch that is present replaces the card's.
  \<open>{...card.metadata, ...updates.metadata}\<close>: the same one level down, where the
  required fields of a present \<open>updates.metadata\<close> always replace.  A field is either
  present with a value or absent; a field present with the value \<open>undefined\<close> is not
  modelled.
\<close>

definition spreadCard :: "WritingCard \<Rightarrow> CardPatch \<Rightarrow> WritingCard" where
  "spreadCard crd updates =
     \<lparr>card_id = (case p_id updates of None \<Rightarrow> card_id crd | Some v \<Rightarrow> v),
      title = (case p_title updates of None \<Rightarrow> title crd | Some v \<Rightarrow> v),
      content = (case p_content updates of None \<Rightarrow> content crd | Some v \<Rightarrow> v),
      tags = (case p_tags updates of None \<Rightarrow> tags crd | Some v \<Rightarrow> v),
      status = (case p_status updates of None \<Rightarrow> status crd | Some v \<Rightarrow> v),
      history = (case p_history updates of None \<Rightarrow> history crd | Some v \<Rightarrow> v),
      position = (case p_position updates of None \<Rightarrow> position crd | Some v \<Rightarrow> v),
      metadata = (case p_metadata updates of None \<Rightarrow> metadata crd | Some v \<Rightarrow> v)\<rparr>"

definition spreadMetadata :: "Metadata \<Rightarrow> Metadata option \<Rightarrow> Metadata" where
  "spreadMetadata m u =
     (case u of
        None \<Rightarrow> m
      | Some v \<Rightarrow>
          \<lparr>wordCount = wordCount v, createdAt = createdAt v, updatedAt = updatedAt v,
           chunkId = (case chunkId v of None \<Rightarrow> chunkId m | Some a \<Rightarrow> Some a),
           color = (case color v of None \<Rightarrow> color m | Some a \<Rightarrow> Some a),
           priority = (case priority v of None \<Rightarrow> priority m | Some a \<Rightarrow> Some a)\<rparr>)"

text \<open>\<open>updates.content\<close> as a condition: present and not the empty string.\<close>

definition truthy :: "string option \<Rightarrow> bool" where
  "truthy v = (case v of None \<Rightarrow> False | Some a \<Rightarrow> a \<noteq> [])"

definition notFound :: "string \<Rightarrow> string \<Rightarrow> error" where
  "notFound kind i = Error (kind @ '' with id '' @ i @ '' not found'')"

definition updateCard :: "Store \<Rightarrow> string \<Rightarrow> CardPatch \<Rightarrow> (error + WritingCard) \<times> Store" where
  "updateCard s i updates =
     (case loadCard s i of
        None \<Rightarrow> (Inl (notFound ''Card'' i), s)
      | Some crd \<Rightarrow>
          (let (t1, s1) = newDate s;
               updatedCard = (spreadCard crd updates)
                 \<lparr>metadata := (spreadMetadata (metadata crd) (p_metadata updates))
                    \<lparr>updatedAt := t1,
                     wordCount := (if truthy (p_content updates)
                                   then countWords (the (p_content updates))
                                   else wordCount (metadata crd))\<rparr>\<rparr>;
               (updatedCard', s2) =
                 (if truthy (p_content updates) \<and> p_content updates \<noteq> Some (content crd)
                  then (let (t2, s2) = newDate s1
                        in (updatedCard\<lparr>history := history crd @
                              [\<lparr>timestamp = t2, entry_content = the (p_content updates),
                                author = None, changeType = Edit\<rparr>]\<rparr>, s2))
                  else (updatedCard, s1))
           in (Inr updatedCard', saveCard s2 updatedCard')))"

definition deleteCard :: "Store \<Rightarrow> string \<Rightarrow> bool \<times> Store" where
  "deleteCard s i = deleteCardFile s i"

definition getCard :: "Store \<Rightarrow> string \<Rightarrow> WritingCard option" where
  "getCard s i = loadCard s i"

text \<open>\<open>card.history.push(entry)\<close> on a card held in memory.\<close>

definition pushHistory :: "WritingCard \<Rightarrow> VersionEntry \<Rightarrow> WritingCard" where
  "pushHistory crd e = crd\<lparr>history := history crd @ [e]\<rparr>"

definition splitCard ::
  "Store \<Rightarrow> string \<Rightarrow> int \<Rightarrow> (error + WritingCard \<times> WritingCard) \<times> Store" where
  "splitCard s i splitPoint =
     (case loadCard s i of
        None \<Rightarrow> (Inl (notFound ''Card'' i), s)
      | Some crd \<Rightarrow>
          (let content1 = trim (substring (content crd) 0 splitPoint);
               content2 = trim (substringFrom (content crd) splitPoint)
           in case updateCard s i (emptyPatch\<lparr>p_content := Some content1,
                                                 p_title := Some (extractTitle content1)\<rparr>) of
                (Inl e, s1) \<Rightarrow> (Inl e, s1)
              | (Inr updatedCard1, s1) \<Rightarrow>
                  (let (newCard, s2) =
                         createCard s1 content2 (Some (extractTitle content2)) (Some (tags crd))
                           (Some \<lparr>pos_x = jsAdd (jsAdd (pos_x (position crd)) (width (position crd)))
                                            (Num 20),
                                  pos_y = pos_y (position crd),
                                  width = width (position crd),
                                  height = height (position crd),
                                  zIndex = None\<rparr>);
                       (t1, s3) = newDate s2;
                       updatedCard1' = pushHistory updatedCard1
                         \<lparr>timestamp = t1, entry_content = content1, author = None,
                          changeType = Split\<rparr>;
                       (t2, s4) = newDate s3;
                       newCard' = pushHistory newCard
                         \<lparr>timestamp = t2, entry_content = content2, author = None,
                          changeType = Split\<rparr>;
                       s5 = saveCard s4 updatedCard1';
                       s6 = saveCard s5 newCard'
                   in (Inr (updatedCard1', newCard'), s6))))"

text \<open>\<open>[...new Set(xs)]\<close>: the first occurrence of every element, in order.\<close>

fun setOf :: "string list \<Rightarrow> string list \<Rightarrow> string list" where
  "setOf seen [] = seen"
| "setOf seen (a # as) = (if a \<in> set seen then setOf seen as else setOf (seen @ [a]) as)"

definition mergeCards :: "Store \<Rightarrow> string \<Rightarrow> string \<Rightarrow> (error + WritingCard) \<times> Store" where
  "mergeCards s id1 id2 =
     (case (loadCard s id1, loadCard s id2) of
        (Some card1, Some card2) \<Rightarrow>
          (let mergedContent = content card1 @ [newline, newline] @ content card2;
               mergedTags = setOf [] (tags card1 @ tags card2)
           in case updateCard s id1 (emptyPatch\<lparr>p_content := Some mergedContent,
                                                   p_title := Some (extractTitle mergedContent),
                                                   p_tags := Some mergedTags\<rparr>) of
                (Inl e, s1) \<Rightarrow> (Inl e, s1)
              | (Inr mergedCard, s1) \<Rightarrow>
                  (let (t1, s2) = newDate s1;
                       mergedCard' = pushHistory mergedCard
                         \<lparr>timestamp = t1, entry_content = mergedContent, author = None,
                          changeType = Merge\<rparr>;
                       s3 = saveCard s2 mergedCard';
                       (deleted, s4) = deleteCardFile s3 id2
                   in (Inr mergedCard', s4)))
      | _ \<Rightarrow> (Inl (Error ''One or both cards not found''), s))"


subsection \<open>Layout\<close>

definition updateCardPosition ::
  "Store \<Rightarrow> string \<Rightarrow> CardPosition \<Rightarrow> (error + WritingCard) \<times> Store" where
  "updateCardPosition s i position' = updateCard s i (emptyPatch\<lparr>p_position := Some position'\<rparr>)"

text \<open>The loop index \<open>i\<close> is a number as well.\<close>

definition gridPosition :: "jsnum \<Rightarrow> jsnum \<Rightarrow> nat \<Rightarrow> CardPosition" where
  "gridPosition columns' spacing' i =
     (let cardWidth = Num 250;
          cardHeight = Num 200;
          row = floorDiv (num (int i)) columns';
          col = jsRem (num (int i)) columns'
      in \<lparr>pos_x = jsMul col (jsAdd cardWidth spacing'),
          pos_y = jsMul row (jsAdd cardHeight spacing'),
          width = cardWidth, height = cardHeight, zIndex = None\<rparr>)"

definition linearPosition :: "jsnum \<Rightarrow> nat \<Rightarrow> CardPosition" where
  "linearPosition spacing' i =
     (let cardWidth = Num 250;
          cardHeight = Num 200
      in \<lparr>pos_x = jsMul (num (int i)) (jsAdd cardWidth spacing'),
          pos_y = Num 0,
          width = cardWidth, height = cardHeight, zIndex = None\<rparr>)"

text \<open>
  The loop \<open>for (let i = 0; i < validCards.length; i++)\<close>, from index \<open>i\<close> on: the cards
  were loaded before the loop, each is updated through its own \<open>id\<close> field, and the
  first failing update ends the loop with what was written so far.
\<close>

fun arrangeFrom ::
  "(nat \<Rightarrow> CardPosition) \<Rightarrow> nat \<Rightarrow> WritingCard list \<Rightarrow> Store
     \<Rightarrow> (error + WritingCard list) \<times> Store" where
  "arrangeFrom pos i [] s = (Inr [], s)"
| "arrangeFrom pos i (crd # rest) s =
     (case updateCardPosition s (card_id crd) (pos i) of
        (Inl e, s1) \<Rightarrow> (Inl e, s1)
      | (Inr crd', s1) \<Rightarrow>
          (case arrangeFrom pos (Suc i) rest s1 of
             (Inl e, s2) \<Rightarrow> (Inl e, s2)
           | (Inr rest', s2) \<Rightarrow> (Inr (crd' # rest'), s2)))"

text \<open>\<open>cardIds.map(load)\<close> followed by \<open>filter((card) => card !== null)\<close>.\<close>

definition loadValid :: "Store \<Rightarrow> string list \<Rightarrow> WritingCard list" where
  "loadValid s ids = List.map_filter (loadCard s) ids"

definition autoArrangeCards ::
  "Store \<Rightarrow> string list \<Rightarrow> ChunkLayout \<Rightarrow> (error + WritingCard list) \<times> Store" where
  "autoArrangeCards s ids layout' =
     (let validCards = loadValid s ids
      in if layoutType layout' = Grid then
           (let columns' = numberOr (columns layout') (Num 3);
                spacing' = numberOr (spacing layout') (Num 20)
            in arrangeFrom (gridPosition columns' spacing') 0 validCards s)
         else if layoutType layout' = Linear then
           (let spacing' = numberOr (spacing layout') (Num 20)
            in arrangeFrom (linearPosition spacing') 0 validCards s)
         else (Inr validCards, s))"

subsection \<open>Chunks\<close>

definition defaultLayout :: ChunkLayout where
  "defaultLayout = \<lparr>layoutType = Grid, columns = Some (Num 3), spacing = Some (Num 20),
     autoArrange = Some True\<rparr>"

text \<open>\<open>layout.autoArrange\<close> as a condition: present and \<open>true\<close>.\<close>

definition enabled :: "bool option \<Rightarrow> bool" where
  "enabled b = (b = Some True)"

definition createChunk ::
  "Store \<Rightarrow> string \<Rightarrow> string list option \<Rightarrow> string option \<Rightarrow> ChunkLayout option
     \<Rightarrow> (error + ContentChunk) \<times> Store" where
  "createChunk s name' cardIds' purpose' layout' =
     (let ids = (case cardIds' of None \<Rightarrow> [] | Some v \<Rightarrow> v);
          pur = (case purpose' of None \<Rightarrow> ''general'' | Some v \<Rightarrow> v);
          lay = (case layout' of None \<Rightarrow> defaultLayout | Some v \<Rightarrow> v);
          (i, s1) = generateCardId s;
          chunk = \<lparr>chunk_id = i, name = name', cardIds = ids, purpose = pur, layout = lay\<rparr>;
          s2 = saveChunk s1 chunk
      in if enabled (autoArrange lay) \<and> length ids > 0 then
           (case autoArrangeCards s2 ids lay of
              (Inl e, s3) \<Rightarrow> (Inl e, s3)
            | (Inr arranged, s3) \<Rightarrow> (Inr chunk, s3))
         else (Inr chunk, s2))"

definition spreadChunk :: "ContentChunk \<Rightarrow> ChunkPatch \<Rightarrow> ContentChunk" where
  "spreadChunk chunk updates =
     \<lparr>chunk_id = (case q_id updates of None \<Rightarrow> chunk_id chunk | Some v \<Rightarrow> v),
      name = (case q_name updates of None \<Rightarrow> name chunk | Some v \<Rightarrow> v),
      cardIds = (case q_cardIds updates of None \<Rightarrow> cardIds chunk | Some v \<Rightarrow> v),
      purpose = (case q_purpose updates of None \<Rightarrow> purpose chunk | Some v \<Rightarrow> v),
      layout = (case q_layout updates of None \<Rightarrow> layout chunk | Some v \<Rightarrow> v)\<rparr>"

text \<open>\<open>updates.layout?.autoArrange\<close>: falsy when the patch has no layout.\<close>

definition patchAutoArrange :: "ChunkPatch \<Rightarrow> bool" where
  "patchAutoArrange updates =
     (case q_layout updates of None \<Rightarrow> False | Some l \<Rightarrow> enabled (autoArrange l))"

definition updateChunk ::
  "Store \<Rightarrow> string \<Rightarrow> ChunkPatch \<Rightarrow> (error + ContentChunk) \<times> Store" where
  "updateChunk s i updates =
     (case loadChunk s i of
        None \<Rightarrow> (Inl (notFound ''Chunk'' i), s)
      | Some chunk \<Rightarrow>
          (let updatedChunk = spreadChunk chunk updates;
               s1 = saveChunk s updatedChunk
           in if patchAutoArrange updates \<and> length (cardIds updatedChunk) > 0 then
                (case autoArrangeCards s1 (cardIds updatedChunk) (layout updatedChunk) of
                   (Inl e, s2) \<Rightarrow> (Inl e, s2)
                 | (Inr arranged, s2) \<Rightarrow> (Inr updatedChunk, s2))
              else (Inr updatedChunk, s1)))"

subsection \<open>Export\<close>

text \<open>\<open>xs.join(sep)\<close>.\<close>

fun join :: "string \<Rightarrow> string list \<Rightarrow> string" where
  "join sep [] = []"
| "join sep [a] = a"
| "join sep (a # b # rest) = a @ sep @ join sep (b # rest)"

definition exportChunkAsText :: "Store \<Rightarrow> string \<Rightarrow> error + string" where
  "exportChunkAsText s chunkId' =
     (case loadChunk s chunkId' of
        None \<Rightarrow> Inl (notFound ''Chunk'' chunkId')
      | Some chunk \<Rightarrow>
          (let validCards = loadValid s (cardIds chunk)
           in Inr (join [newline, newline] (map content validCards))))"


section \<open>A store with two cards and one chunk\<close>

text \<open>
  The concrete inputs of the evaluations below: card \<open>a\<close> and card \<open>b\<close> (whose content
  ends in a space), and a chunk \<open>k\<close> with the default layout that lists \<open>a\<close>, an id
  that resolves to no card, and \<open>b\<close>.
\<close>

definition cardA :: WritingCard where
  "cardA = \<lparr>card_id = ''a'', title = ''hello world'', content = ''hello world'',
     tags = [''draft'', ''intro''], status = Draft,
     history = [\<lparr>timestamp = 1, entry_content = ''hello world'', author = None,
                 changeType = Create\<rparr>],
     position = \<lparr>pos_x = Num 5, pos_y = Num 7, width = Num 250, height = Num 200,
                  zIndex = None\<rparr>,
     metadata = \<lparr>wordCount = 2, createdAt = 1, updatedAt = 1, chunkId = None, color = None,
                  priority = None\<rparr>\<rparr>"

definition cardB :: WritingCard where
  "cardB = \<lparr>card_id = ''b'', title = ''second'', content = ''second '',
     tags = [''intro'', ''scene''], status = Draft,
     history = [\<lparr>timestamp = 2, entry_content = ''second '', author = None,
                 changeType = Create\<rparr>],
     position = \<lparr>pos_x = Num 5, pos_y = Num 7, width = Num 250, height = Num 200,
                  zIndex = None\<rparr>,
     metadata = \<lparr>wordCount = 1, createdAt = 2, updatedAt = 2, chunkId = None, color = None,
                  priority = None\<rparr>\<rparr>"

definition chunkK :: ContentChunk where
  "chunkK = \<lparr>chunk_id = ''k'', name = ''chapter'', cardIds = [''a'', ''gone'', ''b''],
     purpose = ''general'', layout = defaultLayout\<rparr>"

definition store0 :: Store where
  "store0 = \<lparr>cards = [''a'' \<mapsto> cardA, ''b'' \<mapsto> cardB],
     chunks = [''k'' \<mapsto> chunkK],
     dates = (\<lambda>n. 100 + n), dateReads = 0,
     uuids = (\<lambda>n. ''uuid-'' @ replicate n (CHR ''x'')), uuidReads = 0\<rparr>"

section \<open>The history invariant\<close>

text \<open>
  The history of a card is current when it is not empty and its last entry records the
  card's content.
\<close>

definition historyCurrent :: "WritingCard \<Rightarrow> bool" where
  "historyCurrent crd =
     (history crd \<noteq> [] \<and> entry_content (last (history crd)) = content crd)"

section \<open>Cards stored under their own id\<close>

text \<open>
  \<open>saveCard\<close> writes a card to the document named by its \<open>id\<close> field.  The ids of a list
  are stored under their own id when each of them that resolves, resolves to a card with
  that \<open>id\<close>.
\<close>

definition storedUnderOwnId :: "Store \<Rightarrow> string list \<Rightarrow> bool" where
  "storedUnderOwnId s ids =
     list_all (\<lambda>i. case cards s i of None \<Rightarrow> True | Some crd \<Rightarrow> card_id crd = i) ids"

section \<open>Properties of \<open>updateCard\<close>\<close>

lemma spreadCard_empty: "spreadCard crd emptyPatch = crd"
  by (simp add: spreadCard_def emptyPatch_def)

lemma emptyPatch_sel:
  "p_id emptyPatch = None" "p_title emptyPatch = None" "p_content emptyPatch = None"
  "p_tags emptyPatch = None" "p_status emptyPatch = None" "p_history emptyPatch = None"
  "p_position emptyPatch = None" "p_metadata emptyPatch = None"
  by (simp_all add: emptyPatch_def)

lemma updateCard_empty:
  assumes "cards s i = Some crd"
  shows "updateCard s i emptyPatch =
    (Inr (crd\<lparr>metadata := (metadata crd)\<lparr>updatedAt := dates s (dateReads s)\<rparr>\<rparr>),
     saveCard (snd (newDate s))
       (crd\<lparr>metadata := (metadata crd)\<lparr>updatedAt := dates s (dateReads s)\<rparr>\<rparr>))"
  using assms
  by (simp add: updateCard_def loadCard_def spreadCard_empty newDate_def truthy_def
      spreadMetadata_def emptyPatch_sel Let_def)

text \<open>
  Claim C4.  For a stored card, \<open>updateCard(id, {})\<close> succeeds; the card it returns has
  the history, the content, the word count and the tags of the stored card, its
  \<open>updatedAt\<close> is the reading of the clock taken by the call, and putting the old
  \<open>updatedAt\<close> back gives the stored card, so no other field has changed.  The returned
  card is the one persisted.
\<close>

theorem updateCard_empty_patch:
  assumes "cards s i = Some crd"
  shows "\<exists>crd' s'. updateCard s i emptyPatch = (Inr crd', s') \<and>
           history crd' = history crd \<and> content crd' = content crd \<and>
           wordCount (metadata crd') = wordCount (metadata crd) \<and> tags crd' = tags crd \<and>
           updatedAt (metadata crd') = dates s (dateReads s) \<and>
           crd'\<lparr>metadata := (metadata crd')\<lparr>updatedAt := updatedAt (metadata crd)\<rparr>\<rparr> = crd \<and>
           cards s' (card_id crd) = Some crd' \<and> dateReads s' = Suc (dateReads s)"
  by (simp add: updateCard_empty[OF assms] saveCard_def newDate_def)

theorem updateCard_empty_patch_witness:
  "cards store0 ''a'' = Some cardA \<and>
   (\<exists>crd' s'. updateCard store0 ''a'' emptyPatch = (Inr crd', s') \<and>
      history crd' = history cardA \<and> content crd' = content cardA \<and>
      wordCount (metadata crd') = wordCount (metadata cardA) \<and> tags crd' = tags cardA \<and>
      updatedAt (metadata crd') = 100 \<and>
      crd'\<lparr>metadata := (metadata crd')\<lparr>updatedAt := updatedAt (metadata cardA)\<rparr>\<rparr> = cardA \<and>
      cards s' (card_id cardA) = Some crd' \<and> dateReads s' = 1)"
proof -
  have h: "cards store0 ''a'' = Some cardA" by (simp add: store0_def)
  show ?thesis using h updateCard_empty_patch[OF h] by (simp add: store0_def)
qed

lemma updateCard_stored:
  assumes "cards s i = Some crd"
  shows "\<exists>crd' s'. updateCard s i u = (Inr crd', s') \<and>
          card_id crd' = (case p_id u of None \<Rightarrow> card_id crd | Some v \<Rightarrow> v) \<and>
          content crd' = (case p_content u of None \<Rightarrow> content crd | Some v \<Rightarrow> v) \<and>
          tags crd' = (case p_tags u of None \<Rightarrow> tags crd | Some v \<Rightarrow> v) \<and>
          position crd' = (case p_position u of None \<Rightarrow> position crd | Some v \<Rightarrow> v) \<and>
          history crd' =
            (if truthy (p_content u) \<and> p_content u \<noteq> Some (content crd)
             then history crd @ [\<lparr>timestamp = dates s (Suc (dateReads s)),
                    entry_content = the (p_content u), author = None, changeType = Edit\<rparr>]
             else (case p_history u of None \<Rightarrow> history crd | Some v \<Rightarrow> v)) \<and>
          wordCount (metadata crd') =
            (if truthy (p_content u) then countWords (the (p_content u))
             else wordCount (metadata crd)) \<and>
          updatedAt (metadata crd') = dates s (dateReads s) \<and>
          cards s' = (cards s)(card_id crd' \<mapsto> crd') \<and>
          chunks s' = chunks s \<and> dates s' = dates s \<and> uuids s' = uuids s \<and>
          uuidReads s' = uuidReads s"
  using assms
  by (simp add: updateCard_def loadCard_def newDate_def spreadCard_def saveCard_def Let_def
      split: prod.splits)

text \<open>
  What \<open>updateCard\<close> does with a patch whose content is new and not the empty string:
  the word count is recomputed and one \<open>edit\<close> entry with the new content is appended
  to the stored history.
\<close>

lemma updateCard_content_changed:
  assumes "cards s i = Some crd" and "p_content u = Some c2" and "c2 \<noteq> content crd"
    and "c2 \<noteq> []"
  shows "\<exists>crd' s'. updateCard s i u = (Inr crd', s') \<and>
           content crd' = c2 \<and> wordCount (metadata crd') = countWords c2 \<and>
           length (history crd') = Suc (length (history crd)) \<and>
           butlast (history crd') = history crd \<and>
           changeType (last (history crd')) = Edit \<and>
           entry_content (last (history crd')) = c2"
  using updateCard_stored[OF assms(1), of u] assms(2,3,4)
  by (auto simp: truthy_def)

text \<open>
  Claim C3, at a patch whose content is the empty string.  Card \<open>a\<close> holds
  \<open>"hello world"\<close> with a word count of 2.  \<open>updateCard("a", {content: ""})\<close> stores the
  empty content, but \<open>updates.content\<close> is falsy: the word count stays 2, where
  \<open>countWords("")\<close> is 0, and no history entry is appended.
\<close>

theorem updateCard_empty_content_stale:
  "(case fst (updateCard store0 ''a'' (emptyPatch\<lparr>p_content := Some []\<rparr>)) of
      Inl e \<Rightarrow> False
    | Inr crd' \<Rightarrow> content crd' = [] \<and> content cardA \<noteq> [] \<and>
        wordCount (metadata crd') = 2 \<and> countWords [] = 0 \<and>
        history crd' = history cardA)"
  by code_simp

section \<open>Properties of \<open>createCard\<close> and \<open>splitCard\<close>\<close>

lemma createCard_result:
  "\<exists>crd s'. createCard s c t g p = (crd, s') \<and> card_id crd = uuids s (uuidReads s) \<and>
      content crd = c \<and>
      history crd = [\<lparr>timestamp = dates s (dateReads s), entry_content = c, author = None,
                       changeType = Create\<rparr>] \<and>
      cards s' = (cards s)(card_id crd \<mapsto> crd)"
  by (simp add: createCard_def generateCardId_def newDate_def saveCard_def Let_def
      split: prod.splits)

lemma createCard_current:
  "historyCurrent (fst (createCard s c t g pos)) \<and>
   cards (snd (createCard s c t g pos)) (card_id (fst (createCard s c t g pos))) =
     Some (fst (createCard s c t g pos))"
  by (simp add: createCard_def generateCardId_def newDate_def saveCard_def Let_def
      historyCurrent_def split: prod.splits)

lemma emptyPatch_upd2_sel:
  "p_id (emptyPatch\<lparr>p_content := a, p_title := b\<rparr>) = None"
  "p_content (emptyPatch\<lparr>p_content := a, p_title := b\<rparr>) = a"
  "p_history (emptyPatch\<lparr>p_content := a, p_title := b\<rparr>) = None"
  by (simp_all add: emptyPatch_def)

text \<open>
  \<open>splitCard\<close> on a stored card never fails, whatever the offset: the first card keeps
  the id and receives the trimmed prefix, the second has the fresh id and the trimmed
  suffix, both end with a \<open>split\<close> entry, and both are persisted.
\<close>

lemma splitCard_stored:
  assumes "cards s i = Some crd"
  shows "\<exists>c1 c2 s'. splitCard s i p = (Inr (c1, c2), s') \<and>
           content c1 = trim (substring (content crd) 0 p) \<and>
           content c2 = trim (substringFrom (content crd) p) \<and>
           historyCurrent c1 \<and> historyCurrent c2 \<and>
           card_id c1 = card_id crd \<and> card_id c2 = uuids s (uuidReads s) \<and>
           length (history crd) < length (history c1) \<and>
           (\<forall>k. cards s' k = (if k = card_id c2 then Some c2
                              else if k = card_id c1 then Some c1 else cards s k))"
proof -
  let ?c1 = "trim (substring (content crd) 0 p)"
  let ?u = "emptyPatch\<lparr>p_content := Some ?c1, p_title := Some (extractTitle ?c1)\<rparr>"
  from updateCard_stored[OF assms, of ?u] obtain u1 s1 where
    u: "updateCard s i ?u = (Inr u1, s1)"
    and c: "content u1 = ?c1"
    and i: "card_id u1 = card_id crd"
    and h: "length (history crd) \<le> length (history u1)"
    and s: "cards s1 = (cards s)(card_id u1 \<mapsto> u1)"
    and r: "uuids s1 = uuids s" "uuidReads s1 = uuidReads s"
    by (auto simp: emptyPatch_upd2_sel)
  let ?pos = "Some \<lparr>pos_x = jsAdd (jsAdd (pos_x (position crd)) (width (position crd))) (Num 20),
                     pos_y = pos_y (position crd),
                     width = width (position crd),
                     height = height (position crd),
                     zIndex = None\<rparr>"
  let ?c2 = "trim (substringFrom (content crd) p)"
  from createCard_result[of s1 ?c2 "Some (extractTitle ?c2)" "Some (tags crd)" ?pos]
  obtain n s2 where
    n: "createCard s1 ?c2 (Some (extractTitle ?c2)) (Some (tags crd)) ?pos = (n, s2)"
    and ni: "card_id n = uuids s (uuidReads s)" and nc: "content n = ?c2"
    and ns: "cards s2 = (cards s1)(card_id n \<mapsto> n)"
    using r by auto
  show ?thesis using assms u c i h s n ni nc ns
    by (simp add: splitCard_def loadCard_def Let_def pushHistory_def newDate_def saveCard_def
        historyCurrent_def split: prod.splits)
qed

lemma substring_below: "p < 0 \<Longrightarrow> substring s 0 p = [] \<and> substringFrom s p = s"
  by (simp add: substring_def substringFrom_def clampIndex_def Let_def)

lemma substring_above:
  "int (length s) < p \<Longrightarrow> substring s 0 p = s \<and> substringFrom s p = []"
  by (simp add: substring_def substringFrom_def clampIndex_def Let_def)

lemma substring_zero: "substring s 0 0 = [] \<and> substringFrom s 0 = s"
  by (simp add: substring_def substringFrom_def clampIndex_def Let_def)

lemma substring_length:
  "substring s 0 (int (length s)) = s \<and> substringFrom s (int (length s)) = []"
  by (simp add: substring_def substringFrom_def clampIndex_def Let_def)

lemma trim_Nil: "trim [] = []"
  by (simp add: trim_def)

text \<open>
  Claim C1, as the code has it.  \<open>splitCard\<close> has no check of the offset, and
  \<open>substring\<close> clamps it.  For a stored card (under its own id, the fresh id being
  another one) and an offset below \<open>0\<close> or above \<open>content.length\<close>, \<open>splitCard\<close>
  succeeds with the result and the store of the call at the nearest offset in range:
  below \<open>0\<close> the original card is left with the empty content and the new card receives
  the whole trimmed content; above the length the original keeps the trimmed content and
  the new card is empty.  The original's document is overwritten with the first card
  returned, which differs from the stored one.
\<close>

theorem splitCard_out_of_range_clamps:
  assumes "cards s i = Some crd" and "card_id crd = i" and "uuids s (uuidReads s) \<noteq> i"
    and "p < 0 \<or> int (length (content crd)) < p"
  shows "\<exists>c1 c2 s'. splitCard s i p = (Inr (c1, c2), s') \<and>
     splitCard s i (if p < 0 then 0 else int (length (content crd))) = (Inr (c1, c2), s') \<and>
     content c1 = (if p < 0 then [] else trim (content crd)) \<and>
     content c2 = (if p < 0 then trim (content crd) else []) \<and>
     loadCard s' i = Some c1 \<and> c1 \<noteq> crd"
proof -
  have same: "splitCard s i p = splitCard s i (if p < 0 then 0 else int (length (content crd)))"
    using assms(1,4)
    by (auto simp: splitCard_def loadCard_def substring_below substring_above substring_zero
        substring_length)
  from splitCard_stored[OF assms(1), of p] obtain c1 c2 s' where
    r: "splitCard s i p = (Inr (c1, c2), s')"
    and c1: "content c1 = trim (substring (content crd) 0 p)"
    and c2: "content c2 = trim (substringFrom (content crd) p)"
    and i1: "card_id c1 = card_id crd" and i2: "card_id c2 = uuids s (uuidReads s)"
    and h: "length (history crd) < length (history c1)"
    and st: "\<forall>k. cards s' k = (if k = card_id c2 then Some c2
                              else if k = card_id c1 then Some c1 else cards s k)"
    by blast
  have ne: "c1 \<noteq> crd" using h by auto
  have ld: "loadCard s' i = Some c1" using st i1 i2 assms(2,3) by (simp add: loadCard_def)
  show ?thesis using r same c1 c2 ne ld assms(4)
    by (auto simp: substring_below substring_above trim_Nil)
qed

theorem splitCard_out_of_range_clamps_witness:
  "cards store0 ''a'' = Some cardA \<and> card_id cardA = ''a'' \<and>
   uuids store0 (uuidReads store0) \<noteq> ''a'' \<and>
   ((-1::int) < 0 \<or> int (length (content cardA)) < -1) \<and>
   (\<exists>c1 c2 s'. splitCard store0 ''a'' (-1) = (Inr (c1, c2), s') \<and>
      splitCard store0 ''a'' 0 = (Inr (c1, c2), s') \<and>
      content c1 = [] \<and> content c2 = ''hello world'' \<and>
      loadCard s' ''a'' = Some c1 \<and> c1 \<noteq> cardA)"
proof -
  have h1: "cards store0 ''a'' = Some cardA" by (simp add: store0_def)
  have h2: "card_id cardA = ''a''" by (simp add: cardA_def)
  have h3: "uuids store0 (uuidReads store0) \<noteq> ''a''" by (simp add: store0_def)
  have h4: "(-1::int) < 0 \<or> int (length (content cardA)) < -1" by simp
  have t: "trim (content cardA) = ''hello world''"
    by (simp add: cardA_def trim_def isWhiteSpace_def)
  show ?thesis using h1 h2 h3 splitCard_out_of_range_clamps[OF h1 h2 h3 h4] by (simp add: t)
qed

text \<open>
  Claim C1 as stated fails: \<open>splitCard("a", -1)\<close> on the store above does not fail, and
  the document of card \<open>a\<close> is not what it was.
\<close>

theorem splitCard_out_of_range_counterexample:
  "\<not> (isl (fst (splitCard store0 ''a'' (-1))) \<and>
      cards (snd (splitCard store0 ''a'' (-1))) ''a'' = cards store0 ''a'')"
  by code_simp

section \<open>Properties of \<open>mergeCards\<close>\<close>

lemma set_setOf: "set (setOf seen xs) = set seen \<union> set xs"
  by (induction seen xs rule: setOf.induct) auto

lemma distinct_setOf: "distinct seen \<Longrightarrow> distinct (setOf seen xs)"
  by (induction seen xs rule: setOf.induct) auto

lemma emptyPatch_upd3_sel:
  "p_id (emptyPatch\<lparr>p_content := a, p_title := b, p_tags := c\<rparr>) = None"
  "p_content (emptyPatch\<lparr>p_content := a, p_title := b, p_tags := c\<rparr>) = a"
  "p_tags (emptyPatch\<lparr>p_content := a, p_title := b, p_tags := c\<rparr>) = c"
  by (simp_all add: emptyPatch_def)

text \<open>
  Claim C8.  For two cards stored under distinct ids \<open>idA\<close> and \<open>idB\<close> (the first under
  its own id), \<open>mergeCards(idA, idB)\<close> returns a card with the id \<open>idA\<close>, whose content is
  A's content, a blank line (\<open>"\n\n"\<close>) and B's content, and whose tags are those of A
  and B without duplicates; afterwards loading \<open>idB\<close> gives nothing and loading \<open>idA\<close>
  gives the returned card.
\<close>

theorem mergeCards_distinct:
  assumes "cards s idA = Some crdA" and "cards s idB = Some crdB"
    and "card_id crdA = idA" and "idA \<noteq> idB"
  shows "\<exists>merged s'. mergeCards s idA idB = (Inr merged, s') \<and>
           card_id merged = idA \<and>
           content merged = content crdA @ [newline, newline] @ content crdB \<and>
           set (tags merged) = set (tags crdA) \<union> set (tags crdB) \<and>
           distinct (tags merged) \<and>
           loadCard s' idB = None \<and> loadCard s' idA = Some merged"
proof -
  let ?u = "emptyPatch\<lparr>p_content := Some (content crdA @ [newline, newline] @ content crdB),
              p_title := Some (extractTitle (content crdA @ [newline, newline] @ content crdB)),
              p_tags := Some (setOf [] (tags crdA @ tags crdB))\<rparr>"
  from updateCard_stored[OF assms(1), of ?u] obtain c1 s1 where
    u: "updateCard s idA ?u = (Inr c1, s1)"
    and c: "content c1 = content crdA @ [newline, newline] @ content crdB"
    and i: "card_id c1 = idA"
    and t: "tags c1 = setOf [] (tags crdA @ tags crdB)"
    and s: "cards s1 = (cards s)(card_id c1 \<mapsto> c1)"
    using assms(3) by (auto simp: emptyPatch_upd3_sel)
  show ?thesis using assms u c i t s
    by (simp add: mergeCards_def loadCard_def Let_def pushHistory_def newDate_def saveCard_def
        deleteCardFile_def set_setOf distinct_setOf split: prod.splits option.splits)
qed

theorem mergeCards_distinct_witness:
  "cards store0 ''a'' = Some cardA \<and> cards store0 ''b'' = Some cardB \<and>
   card_id cardA = ''a'' \<and> ''a'' \<noteq> ''b'' \<and>
   (\<exists>merged s'. mergeCards store0 ''a'' ''b'' = (Inr merged, s') \<and>
      card_id merged = ''a'' \<and>
      content merged = ''hello world'' @ [newline, newline] @ ''second '' \<and>
      set (tags merged) = {''draft'', ''intro'', ''scene''} \<and>
      distinct (tags merged) \<and>
      loadCard s' ''b'' = None \<and> loadCard s' ''a'' = Some merged)"
proof -
  have h1: "cards store0 ''a'' = Some cardA" by (simp add: store0_def)
  have h2: "cards store0 ''b'' = Some cardB" by (simp add: store0_def)
  have h3: "card_id cardA = ''a''" by (simp add: cardA_def)
  have h4: "''a'' \<noteq> ''b''" by simp
  have e: "content cardA = ''hello world''" "content cardB = ''second ''"
    "set (tags cardA) \<union> set (tags cardB) = {''draft'', ''intro'', ''scene''}"
    by (auto simp: cardA_def cardB_def)
  show ?thesis using h1 h2 h3 mergeCards_distinct[OF h1 h2 h3 h4] unfolding e by simp
qed

text \<open>
  Claim C9.  For a stored card, \<open>mergeCards(id, id)\<close> returns a card whose content is
  the stored content, a blank line and the stored content again, and afterwards loading
  \<open>id\<close> gives nothing: the final delete removes the document just saved.
\<close>

theorem mergeCards_same_id:
  assumes "cards s i = Some crd"
  shows "\<exists>merged s'. mergeCards s i i = (Inr merged, s') \<and>
           content merged = content crd @ [newline, newline] @ content crd \<and>
           loadCard s' i = None"
proof -
  let ?u = "emptyPatch\<lparr>p_content := Some (content crd @ [newline, newline] @ content crd),
              p_title := Some (extractTitle (content crd @ [newline, newline] @ content crd)),
              p_tags := Some (setOf [] (tags crd @ tags crd))\<rparr>"
  from updateCard_stored[OF assms, of ?u] obtain c1 s1 where
    u: "updateCard s i ?u = (Inr c1, s1)"
    and c: "content c1 = content crd @ [newline, newline] @ content crd"
    by (auto simp: emptyPatch_upd3_sel)
  show ?thesis using assms u c
    by (simp add: mergeCards_def loadCard_def Let_def pushHistory_def newDate_def saveCard_def
        deleteCardFile_def split: prod.splits option.splits)
qed

theorem mergeCards_same_id_witness:
  "cards store0 ''a'' = Some cardA \<and>
   (\<exists>merged s'. mergeCards store0 ''a'' ''a'' = (Inr merged, s') \<and>
      content merged = ''hello world'' @ [newline, newline] @ ''hello world'' \<and>
      loadCard s' ''a'' = None)"
proof -
  have h: "cards store0 ''a'' = Some cardA" by (simp add: store0_def)
  have e: "content cardA = ''hello world''" by (simp add: cardA_def)
  show ?thesis using h mergeCards_same_id[OF h] unfolding e by simp
qed

section \<open>The history invariant over the mutations\<close>

lemma updateCard_current:
  assumes "cards s i = Some crd" and "historyCurrent crd" and "p_history u = None"
    and "p_content u \<noteq> Some []"
  shows "\<exists>crd' s'. updateCard s i u = (Inr crd', s') \<and> historyCurrent crd' \<and>
           cards s' (card_id crd') = Some crd'"
proof -
  from updateCard_stored[OF assms(1), of u] obtain crd' s' where
    u: "updateCard s i u = (Inr crd', s')"
    and c: "content crd' = (case p_content u of None \<Rightarrow> content crd | Some v \<Rightarrow> v)"
    and h: "history crd' =
            (if truthy (p_content u) \<and> p_content u \<noteq> Some (content crd)
             then history crd @ [\<lparr>timestamp = dates s (Suc (dateReads s)),
                    entry_content = the (p_content u), author = None, changeType = Edit\<rparr>]
             else (case p_history u of None \<Rightarrow> history crd | Some v \<Rightarrow> v))"
    and s: "cards s' = (cards s)(card_id crd' \<mapsto> crd')"
    by blast
  have "historyCurrent crd'"
    using assms(2,3,4) c h by (cases "p_content u") (auto simp: historyCurrent_def truthy_def)
  then show ?thesis using u s by simp
qed

lemma mergeCards_current:
  assumes "cards s i = Some crd" and "cards s j = Some crd2"
  shows "\<exists>merged s'. mergeCards s i j = (Inr merged, s') \<and> historyCurrent merged \<and>
           (card_id merged \<noteq> j \<longrightarrow> cards s' (card_id merged) = Some merged) \<and>
           (card_id merged = j \<longrightarrow> cards s' (card_id merged) = None)"
proof -
  let ?u = "emptyPatch\<lparr>p_content := Some (content crd @ [newline, newline] @ content crd2),
              p_title := Some (extractTitle (content crd @ [newline, newline] @ content crd2)),
              p_tags := Some (setOf [] (tags crd @ tags crd2))\<rparr>"
  from updateCard_stored[OF assms(1), of ?u] obtain c1 s1 where
    u: "updateCard s i ?u = (Inr c1, s1)"
    and c: "content c1 = content crd @ [newline, newline] @ content crd2"
    by (auto simp: emptyPatch_def)
  show ?thesis using assms u c
    by (simp add: mergeCards_def loadCard_def Let_def pushHistory_def newDate_def saveCard_def
        deleteCardFile_def historyCurrent_def split: prod.splits option.splits)
qed

text \<open>
  Claim C2, as the code has it.  \<open>createCard\<close>, \<open>splitCard\<close> (for both cards) and
  \<open>mergeCards\<close> always return cards whose history is current.  \<open>updateCard\<close> merges
  whatever the patch holds: it returns a card whose history is current when the stored
  card's was, the patch has no \<open>history\<close> field and its content is not the empty string
  (the empty string is left out: see C3).  What is persisted: the card returned by
  \<open>createCard\<close> and by \<open>updateCard\<close>, under its id; the new card of \<open>splitCard\<close>, and
  the original one when its id is not the new card's; the card returned by
  \<open>mergeCards\<close> when its id is not the second argument, and nothing under its id when
  it is (the final delete removes the document just saved).
\<close>

theorem mutations_history_current:
  "historyCurrent (fst (createCard s c t g pos)) \<and>
   cards (snd (createCard s c t g pos)) (card_id (fst (createCard s c t g pos))) =
     Some (fst (createCard s c t g pos)) \<and>
   (cards s i = Some crd \<and> historyCurrent crd \<and> p_history u = None \<and> p_content u \<noteq> Some []
      \<longrightarrow> (\<exists>crd' s'. updateCard s i u = (Inr crd', s') \<and> historyCurrent crd' \<and>
             cards s' (card_id crd') = Some crd')) \<and>
   (cards s i = Some crd
      \<longrightarrow> (\<exists>c1 c2 s'. splitCard s i p = (Inr (c1, c2), s') \<and>
             historyCurrent c1 \<and> historyCurrent c2 \<and> cards s' (card_id c2) = Some c2 \<and>
             (card_id c1 \<noteq> card_id c2 \<longrightarrow> cards s' (card_id c1) = Some c1))) \<and>
   (cards s i = Some crd \<and> cards s j = Some crd2
      \<longrightarrow> (\<exists>merged s'. mergeCards s i j = (Inr merged, s') \<and> historyCurrent merged \<and>
             (card_id merged \<noteq> j \<longrightarrow> cards s' (card_id merged) = Some merged) \<and>
             (card_id merged = j \<longrightarrow> cards s' (card_id merged) = None)))"
proof (intro conjI impI)
  show "historyCurrent (fst (createCard s c t g pos))"
    using createCard_current by blast
  show "cards (snd (createCard s c t g pos)) (card_id (fst (createCard s c t g pos))) =
     Some (fst (createCard s c t g pos))"
    using createCard_current by blast
next
  assume "cards s i = Some crd \<and> historyCurrent crd \<and> p_history u = None \<and>
    p_content u \<noteq> Some []"
  then show "\<exists>crd' s'. updateCard s i u = (Inr crd', s') \<and> historyCurrent crd' \<and>
             cards s' (card_id crd') = Some crd'"
    using updateCard_current by blast
next
  assume a: "cards s i = Some crd"
  from splitCard_stored[OF a, of p]
  show "\<exists>c1 c2 s'. splitCard s i p = (Inr (c1, c2), s') \<and>
             historyCurrent c1 \<and> historyCurrent c2 \<and> cards s' (card_id c2) = Some c2 \<and>
             (card_id c1 \<noteq> card_id c2 \<longrightarrow> cards s' (card_id c1) = Some c1)"
    by fastforce
next
  assume "cards s i = Some crd \<and> cards s j = Some crd2"
  then show "\<exists>merged s'. mergeCards s i j = (Inr merged, s') \<and> historyCurrent merged \<and>
             (card_id merged \<noteq> j \<longrightarrow> cards s' (card_id merged) = Some merged) \<and>
             (card_id merged = j \<longrightarrow> cards s' (card_id merged) = None)"
    using mergeCards_current by blast
qed

theorem mutations_history_current_witness:
  "cards store0 ''a'' = Some cardA \<and> historyCurrent cardA \<and>
   p_history (emptyPatch\<lparr>p_content := Some ''new text''\<rparr>) = None \<and>
   p_content (emptyPatch\<lparr>p_content := Some ''new text''\<rparr>) \<noteq> Some [] \<and>
   cards store0 ''b'' = Some cardB \<and>
   historyCurrent (fst (createCard store0 ''text'' None None None)) \<and>
   (\<exists>crd' s'. updateCard store0 ''a'' (emptyPatch\<lparr>p_content := Some ''new text''\<rparr>) =
        (Inr crd', s') \<and> historyCurrent crd' \<and> cards s' (card_id crd') = Some crd') \<and>
   (\<exists>c1 c2 s'. splitCard store0 ''a'' 5 = (Inr (c1, c2), s') \<and>
        historyCurrent c1 \<and> historyCurrent c2 \<and> cards s' (card_id c2) = Some c2) \<and>
   (\<exists>merged s'. mergeCards store0 ''a'' ''b'' = (Inr merged, s') \<and> historyCurrent merged)"
proof -
  have h1: "cards store0 ''a'' = Some cardA" by (simp add: store0_def)
  have h2: "historyCurrent cardA" by (simp add: historyCurrent_def cardA_def)
  have h3: "p_history (emptyPatch\<lparr>p_content := Some ''new text''\<rparr>) = None"
    by (simp add: emptyPatch_def)
  have h4: "p_content (emptyPatch\<lparr>p_content := Some ''new text''\<rparr>) \<noteq> Some []"
    by (simp add: emptyPatch_def)
  have h5: "cards store0 ''b'' = Some cardB" by (simp add: store0_def)
  from mutations_history_current[of store0 "''text''" None None None "''a''" cardA
      "emptyPatch\<lparr>p_content := Some ''new text''\<rparr>" 5 "''b''" cardB] h1 h2 h3 h4 h5
  show ?thesis by blast
qed

text \<open>
  Claim C2 as stated fails: \<open>updateCard("a", {history: []})\<close> completes and returns
  (and persists) a card with an empty history.
\<close>

theorem mutations_history_current_counterexample:
  "\<not> (case fst (updateCard store0 ''a'' (emptyPatch\<lparr>p_history := Some []\<rparr>)) of
        Inl e \<Rightarrow> True
      | Inr crd' \<Rightarrow> historyCurrent crd')"
  by code_simp

section \<open>Properties of \<open>exportChunkAsText\<close>\<close>

lemma loadValid_eq:
  "loadValid s ids = map (\<lambda>i. the (cards s i)) (filter (\<lambda>i. cards s i \<noteq> None) ids)"
  by (simp add: loadValid_def List.map_filter_def loadCard_def comp_def)

text \<open>
  Claim C5, as the code has it.  For a stored chunk, \<open>exportChunkAsText\<close> returns the
  contents of the cards that \<open>cardIds\<close> resolves to, in the order of \<open>cardIds\<close>, the
  unresolved ids dropped, joined by \<open>"\n\n"\<close>; the result is returned as it is, not
  trimmed.  For an absent chunk it fails with the not-found error.
\<close>

theorem exportChunkAsText_joined:
  "(chunks s k = Some chunk \<longrightarrow>
      exportChunkAsText s k =
        Inr (join [newline, newline]
          (map (\<lambda>i. content (the (cards s i)))
             (filter (\<lambda>i. cards s i \<noteq> None) (cardIds chunk))))) \<and>
   (chunks s k = None \<longrightarrow> exportChunkAsText s k = Inl (notFound ''Chunk'' k))"
  by (simp add: exportChunkAsText_def loadChunk_def loadValid_eq comp_def)

theorem exportChunkAsText_joined_witness:
  "chunks store0 ''k'' = Some chunkK \<and> chunks store0 ''z'' = None \<and>
   exportChunkAsText store0 ''k'' = Inr (''hello world'' @ [newline, newline] @ ''second '') \<and>
   exportChunkAsText store0 ''z'' = Inl (Error ''Chunk with id z not found'')"
proof -
  have h1: "chunks store0 ''k'' = Some chunkK" by (simp add: store0_def)
  have h2: "chunks store0 ''z'' = None" by (simp add: store0_def)
  have e: "cardIds chunkK = [''a'', ''gone'', ''b'']" by (simp add: chunkK_def)
  have c: "cards store0 ''a'' = Some cardA" "cards store0 ''b'' = Some cardB"
    "cards store0 ''gone'' = None"
    by (simp_all add: store0_def)
  have d: "content cardA = ''hello world''" "content cardB = ''second ''"
    by (simp_all add: cardA_def cardB_def)
  from exportChunkAsText_joined[of store0 "''k''" chunkK]
    exportChunkAsText_joined[of store0 "''z''" chunkK] h1 h2
  show ?thesis by (simp add: e c d notFound_def)
qed

text \<open>
  Claim C5 as stated fails: the export of chunk \<open>k\<close> ends with the space that ends the
  content of card \<open>b\<close>, so it is not the trimmed text.
\<close>

theorem exportChunkAsText_counterexample:
  "exportChunkAsText store0 ''k'' \<noteq>
     Inr (trim (join [newline, newline] (map content (loadValid store0 (cardIds chunkK)))))"
  by code_simp

section \<open>Properties of \<open>autoArrangeCards\<close>\<close>

lemma updateCardPosition_own:
  assumes "cards s i = Some crd" and "card_id crd = i"
  shows "\<exists>crd' s'. updateCardPosition s i pos = (Inr crd', s') \<and> position crd' = pos \<and>
     card_id crd' = i \<and> cards s' = (cards s)(i \<mapsto> crd')"
  using updateCard_stored[OF assms(1), of "emptyPatch\<lparr>p_position := Some pos\<rparr>"] assms(2)
  by (auto simp: updateCardPosition_def emptyPatch_def)

text \<open>
  The loop over cards that are stored under their own ids: it succeeds, returns the
  cards in order, the \<open>j\<close>-th at the \<open>j\<close>-th position, touches no other document, and
  when no card occurs twice every card returned is the one persisted.
\<close>

lemma arrangeFrom_own:
  assumes "\<forall>c \<in> set cs. \<exists>st. cards s (card_id c) = Some st \<and> card_id st = card_id c"
  shows "\<exists>cs' s'. arrangeFrom pos n cs s = (Inr cs', s') \<and>
           map card_id cs' = map card_id cs \<and>
           (\<forall>j < length cs. position (cs' ! j) = pos (n + j)) \<and>
           (\<forall>k. k \<notin> card_id ` set cs \<longrightarrow> cards s' k = cards s k) \<and>
           (distinct (map card_id cs) \<longrightarrow>
              (\<forall>j < length cs. cards s' (card_id (cs' ! j)) = Some (cs' ! j)))"
  using assms
proof (induction cs arbitrary: n s)
  case Nil
  then show ?case by simp
next
  case (Cons c cs)
  from Cons.prems obtain st where st: "cards s (card_id c) = Some st" "card_id st = card_id c"
    by auto
  from updateCardPosition_own[OF st, of "pos n"] obtain c' s1 where
    u: "updateCardPosition s (card_id c) (pos n) = (Inr c', s1)" and p: "position c' = pos n"
    and i: "card_id c' = card_id c" and s1: "cards s1 = (cards s)(card_id c \<mapsto> c')"
    by blast
  have "\<forall>d \<in> set cs. \<exists>st. cards s1 (card_id d) = Some st \<and> card_id st = card_id d"
    using Cons.prems s1 i by auto
  from Cons.IH[OF this, of "Suc n"] obtain cs' s2 where
    r: "arrangeFrom pos (Suc n) cs s1 = (Inr cs', s2)"
    and m: "map card_id cs' = map card_id cs"
    and q: "\<forall>j < length cs. position (cs' ! j) = pos (Suc n + j)"
    and f: "\<forall>k. k \<notin> card_id ` set cs \<longrightarrow> cards s2 k = cards s1 k"
    and w: "distinct (map card_id cs) \<longrightarrow>
              (\<forall>j < length cs. cards s2 (card_id (cs' ! j)) = Some (cs' ! j))"
    by blast
  have res: "arrangeFrom pos n (c # cs) s = (Inr (c' # cs'), s2)" using u r by simp
  have a1: "map card_id (c' # cs') = map card_id (c # cs)" using m i by simp
  have a2: "\<forall>j < length (c # cs). position ((c' # cs') ! j) = pos (n + j)"
  proof (intro allI impI)
    fix j assume "j < length (c # cs)"
    then show "position ((c' # cs') ! j) = pos (n + j)"
      using p q by (cases j) auto
  qed
  have a3: "\<forall>k. k \<notin> card_id ` set (c # cs) \<longrightarrow> cards s2 k = cards s k"
    using f s1 by auto
  have a4: "distinct (map card_id (c # cs)) \<longrightarrow>
      (\<forall>j < length (c # cs). cards s2 (card_id ((c' # cs') ! j)) = Some ((c' # cs') ! j))"
  proof (intro allI impI)
    fix j assume d: "distinct (map card_id (c # cs))" and j: "j < length (c # cs)"
    show "cards s2 (card_id ((c' # cs') ! j)) = Some ((c' # cs') ! j)"
    proof (cases j)
      case 0
      from d have "card_id c \<notin> card_id ` set cs" by auto
      then have "cards s2 (card_id c) = cards s1 (card_id c)" using f by blast
      then show ?thesis using 0 s1 i by simp
    next
      case (Suc j')
      then show ?thesis using w d j by simp
    qed
  qed
  show ?case using res a1 a2 a3 a4 by blast
qed

lemma loadValid_own:
  assumes "storedUnderOwnId s ids"
  shows "map card_id (loadValid s ids) = filter (\<lambda>i. cards s i \<noteq> None) ids \<and>
    (\<forall>c \<in> set (loadValid s ids).
       \<exists>st. cards s (card_id c) = Some st \<and> card_id st = card_id c)"
  using assms by (induction ids) (auto simp: loadValid_eq storedUnderOwnId_def)

text \<open>
  On integers in range the grid position is the integer formula: with \<open>c\<close> columns and a
  gap \<open>g\<close>, index \<open>j\<close> is at \<open>x = (j mod c) * (250 + g)\<close>, \<open>y = (j div c) * (200 + g)\<close>.
\<close>

lemma gridPosition_exact:
  assumes "0 < c" and "c \<le> 9007199254740992" and "0 \<le> g"
    and "250 + g \<le> 9007199254740992"
    and "int j * (250 + g) \<le> 9007199254740992"
  shows "gridPosition (Num c) (Num g) j =
     \<lparr>pos_x = Num ((int j mod c) * (250 + g)), pos_y = Num ((int j div c) * (200 + g)),
      width = Num 250, height = Num 200, zIndex = None\<rparr>"
proof -
  have j: "int j \<le> 9007199254740992"
  proof -
    have "int j * 1 \<le> int j * (250 + g)" using assms(3) by (intro mult_left_mono) auto
    then show ?thesis using assms(5) by simp
  qed
  have m: "0 \<le> int j mod c" "int j mod c \<le> int j" using assms(1)
    by (auto simp: zmod_le_nonneg_dividend)
  have d: "0 \<le> int j div c" "int j div c \<le> int j"
    using assms(1) zdiv_mono2[of "int j" 1 c] by (auto simp: pos_imp_zdiv_nonneg_iff)
  have px: "(int j mod c) * (250 + g) \<le> int j * (250 + g)"
    using m assms(3) by (intro mult_right_mono) auto
  have py: "(int j div c) * (200 + g) \<le> int j * (250 + g)"
    using d assms(3) by (intro mult_mono) auto
  have nx: "0 \<le> (int j mod c) * (250 + g)" using m assms(3) by simp
  have ny: "0 \<le> (int j div c) * (200 + g)" using d assms(3) by simp
  have s1: "safe (int j)" "safe c" "safe g" "safe 250" "safe 200"
    using j assms(1,2,3,4) unfolding safe_def by linarith+
  have s2: "safe (250 + g)" "safe (200 + g)"
    using assms(3,4) unfolding safe_def by linarith+
  have s3: "safe (int j mod c)" "safe (int j div c)"
    using m d j unfolding safe_def by linarith+
  have s4: "safe ((int j mod c) * (250 + g))" "safe ((int j div c) * (200 + g))"
    using px py nx ny assms(5) unfolding safe_def by linarith+
  have c0: "c \<noteq> 0" using assms(1) by simp
  have ac: "\<bar>c\<bar> = c" using assms(1) by simp
  have z: "safe 0" by (simp add: safe_def)
  show ?thesis
    by (simp add: gridPosition_def Let_def num_def s1 s2 s3 s4 c0 ac z
        del: of_nat_mod of_nat_div)
qed

text \<open>
  Where the grid formula of the claim holds: the ids are stored under their own ids, the
  columns are absent (then 3) or a positive integer, the spacing is absent (then 20) or
  a positive integer, and the numbers stay in range.  Then \<open>autoArrangeCards\<close>
  succeeds, returns the cards of the ids that resolve, in the order of \<open>cardIds\<close>, and
  the \<open>j\<close>-th of them is at \<open>x = (j mod columns) * (250 + spacing)\<close>,
  \<open>y = (j div columns) * (200 + spacing)\<close>.
\<close>

lemma autoArrange_grid_exact:
  assumes "layoutType l = Grid"
    and "storedUnderOwnId s ids"
    and "(columns l = None \<and> cols = 3) \<or> columns l = Some (Num cols)"
    and "(spacing l = None \<and> gap = 20) \<or> spacing l = Some (Num gap)"
    and "0 < cols" and "cols \<le> 9007199254740992" and "0 < gap"
    and "250 + gap \<le> 9007199254740992"
    and "int (length ids) * (250 + gap) \<le> 9007199254740992"
  shows "\<exists>arranged s'. autoArrangeCards s ids l = (Inr arranged, s') \<and>
           map card_id arranged = filter (\<lambda>i. cards s i \<noteq> None) ids \<and>
           (\<forall>j < length arranged.
              pos_x (position (arranged ! j)) = Num ((int j mod cols) * (250 + gap)) \<and>
              pos_y (position (arranged ! j)) = Num ((int j div cols) * (200 + gap)))"
proof -
  have c: "numberOr (columns l) (Num 3) = Num cols"
    using assms(3,5) by auto
  have g: "numberOr (spacing l) (Num 20) = Num gap"
    using assms(4,7) by auto
  from loadValid_own[OF assms(2)] have
    ids: "map card_id (loadValid s ids) = filter (\<lambda>i. cards s i \<noteq> None) ids"
    and own: "\<forall>c \<in> set (loadValid s ids).
                \<exists>st. cards s (card_id c) = Some st \<and> card_id st = card_id c"
    by blast+
  from arrangeFrom_own[OF own, of "gridPosition (Num cols) (Num gap)" 0]
  obtain cs' s' where
    r: "arrangeFrom (gridPosition (Num cols) (Num gap)) 0 (loadValid s ids) s = (Inr cs', s')"
    and m: "map card_id cs' = map card_id (loadValid s ids)"
    and p: "\<forall>j < length (loadValid s ids).
              position (cs' ! j) = gridPosition (Num cols) (Num gap) (0 + j)"
    by blast
  have len: "length cs' = length (loadValid s ids)" using m by (metis length_map)
  have le: "length (loadValid s ids) \<le> length ids"
    using ids by (metis length_filter_le length_map)
  have res: "autoArrangeCards s ids l = (Inr cs', s')"
    using r assms(1) c g by (simp add: autoArrangeCards_def Let_def)
  have pos: "\<forall>j < length cs'.
       pos_x (position (cs' ! j)) = Num ((int j mod cols) * (250 + gap)) \<and>
       pos_y (position (cs' ! j)) = Num ((int j div cols) * (200 + gap))"
  proof (intro allI impI)
    fix j assume j: "j < length cs'"
    then have "int j \<le> int (length ids)" using len le by simp
    then have "int j * (250 + gap) \<le> int (length ids) * (250 + gap)"
      using assms(7) by (intro mult_right_mono) auto
    then have b: "int j * (250 + gap) \<le> 9007199254740992" using assms(9) by linarith
    have "0 \<le> gap" using assms(7) by simp
    from gridPosition_exact[OF assms(5,6) this assms(8) b] p j len
    show "pos_x (position (cs' ! j)) = Num ((int j mod cols) * (250 + gap)) \<and>
       pos_y (position (cs' ! j)) = Num ((int j div cols) * (200 + gap))"
      by simp
  qed
  show ?thesis using res m ids pos by auto
qed

text \<open>
  Claim C6, at a layout with \<open>spacing: 0\<close>.  \<open>layout.spacing || 20\<close> takes the
  explicit \<open>0\<close> for an absent spacing: with three columns and a spacing of \<open>0\<close> the card
  of index 1 is placed at \<open>x = 270\<close>, where \<open>(1 mod 3) * (250 + 0)\<close> is \<open>250\<close>.
\<close>

theorem autoArrange_grid_spacing_zero:
  "(case fst (autoArrangeCards store0 [''a'', ''b'']
            \<lparr>layoutType = Grid, columns = Some (Num 3), spacing = Some (Num 0),
             autoArrange = None\<rparr>) of
      Inl e \<Rightarrow> False
    | Inr arranged \<Rightarrow>
        map (\<lambda>crd. (pos_x (position crd), pos_y (position crd))) arranged =
          [(Num 0, Num 0), (Num 270, Num 0)]) \<and>
   (1 mod 3) * (250 + 0) = (250 :: int)"
  by code_simp

section \<open>Chunks and the automatic arrangement\<close>

text \<open>
  Claim C7, as the code has it.  \<open>updateChunk\<close> looks at the layout of the patch, not at
  the layout of the updated chunk.  When the patch carries a layout with
  \<open>autoArrange\<close> true and the updated chunk lists at least one card, the store
  \<open>updateChunk\<close> leaves is the store \<open>autoArrangeCards\<close> leaves when run, after the chunk
  is saved, on the updated chunk's cards with that layout, and \<open>updateChunk\<close> fails
  where it fails.  When the patch carries no layout, or one whose \<open>autoArrange\<close> is not
  true, the chunk is saved and no card is touched, whatever the stored layout says.
  \<open>createChunk\<close> arranges when its layout (the default one when none is given) has
  \<open>autoArrange\<close> true and it is given at least one card.
\<close>

theorem chunk_autoArrange_trigger:
  "(chunks s i = Some chunk \<and> q_layout u = Some l \<and> autoArrange l = Some True \<and>
      cardIds (spreadChunk chunk u) \<noteq> []
    \<longrightarrow> layout (spreadChunk chunk u) = l \<and>
        snd (updateChunk s i u) =
          snd (autoArrangeCards (saveChunk s (spreadChunk chunk u))
                 (cardIds (spreadChunk chunk u)) l) \<and>
        fst (updateChunk s i u) =
          map_sum (\<lambda>e. e) (\<lambda>arranged. spreadChunk chunk u)
            (fst (autoArrangeCards (saveChunk s (spreadChunk chunk u))
                 (cardIds (spreadChunk chunk u)) l))) \<and>
   (chunks s i = Some chunk \<and>
      (case q_layout u of None \<Rightarrow> True | Some l' \<Rightarrow> autoArrange l' \<noteq> Some True)
    \<longrightarrow> updateChunk s i u = (Inr (spreadChunk chunk u), saveChunk s (spreadChunk chunk u)) \<and>
        cards (snd (updateChunk s i u)) = cards s) \<and>
   (let ids = (case ids' of None \<Rightarrow> [] | Some v \<Rightarrow> v);
        lay = (case lay' of None \<Rightarrow> defaultLayout | Some v \<Rightarrow> v);
        chunk' = \<lparr>chunk_id = fst (generateCardId s), name = nm, cardIds = ids,
                   purpose = (case pur of None \<Rightarrow> ''general'' | Some v \<Rightarrow> v),
                   layout = lay\<rparr>;
        arranged = autoArrangeCards (saveChunk (snd (generateCardId s)) chunk') ids lay
    in autoArrange lay = Some True \<and> ids \<noteq> []
       \<longrightarrow> snd (createChunk s nm ids' pur lay') = snd arranged \<and>
           fst (createChunk s nm ids' pur lay') =
             map_sum (\<lambda>e. e) (\<lambda>cs. chunk') (fst arranged))"
  by (auto simp: updateChunk_def createChunk_def loadChunk_def patchAutoArrange_def enabled_def
      spreadChunk_def saveChunk_def Let_def split: prod.splits sum.splits option.splits)

theorem chunk_autoArrange_trigger_witness:
  "chunks store0 ''k'' = Some chunkK \<and>
   q_layout (emptyChunkPatch\<lparr>q_layout := Some defaultLayout\<rparr>) = Some defaultLayout \<and>
   autoArrange defaultLayout = Some True \<and>
   cardIds (spreadChunk chunkK (emptyChunkPatch\<lparr>q_layout := Some defaultLayout\<rparr>)) \<noteq> [] \<and>
   snd (updateChunk store0 ''k'' (emptyChunkPatch\<lparr>q_layout := Some defaultLayout\<rparr>)) =
     snd (autoArrangeCards
            (saveChunk store0
               (spreadChunk chunkK (emptyChunkPatch\<lparr>q_layout := Some defaultLayout\<rparr>)))
            [''a'', ''gone'', ''b''] defaultLayout) \<and>
   q_layout (emptyChunkPatch\<lparr>q_name := Some ''x''\<rparr>) = None \<and>
   cards (snd (updateChunk store0 ''k'' (emptyChunkPatch\<lparr>q_name := Some ''x''\<rparr>))) =
     cards store0 \<and>
   snd (createChunk store0 ''n'' (Some [''b'', ''a'']) None None) =
     snd (autoArrangeCards
            (saveChunk (snd (generateCardId store0))
               \<lparr>chunk_id = fst (generateCardId store0), name = ''n'', cardIds = [''b'', ''a''],
                 purpose = ''general'', layout = defaultLayout\<rparr>)
            [''b'', ''a''] defaultLayout)"
proof -
  let ?u1 = "emptyChunkPatch\<lparr>q_layout := Some defaultLayout\<rparr>"
  let ?u2 = "emptyChunkPatch\<lparr>q_name := Some ''x''\<rparr>"
  have h1: "chunks store0 ''k'' = Some chunkK" by (simp add: store0_def)
  have h2: "q_layout ?u1 = Some defaultLayout" by simp
  have h3: "autoArrange defaultLayout = Some True" by (simp add: defaultLayout_def)
  have h4: "cardIds (spreadChunk chunkK ?u1) = [''a'', ''gone'', ''b'']"
    by (simp add: spreadChunk_def chunkK_def emptyChunkPatch_def)
  have h5: "q_layout ?u2 = None" by (simp add: emptyChunkPatch_def)
  have a: "snd (updateChunk store0 ''k'' ?u1) =
     snd (autoArrangeCards (saveChunk store0 (spreadChunk chunkK ?u1))
            [''a'', ''gone'', ''b''] defaultLayout)"
    using chunk_autoArrange_trigger[where s = store0 and i = "''k''" and chunk = chunkK
        and u = ?u1 and l = defaultLayout] h1 h2 h3 h4
    by simp
  have b: "cards (snd (updateChunk store0 ''k'' ?u2)) = cards store0"
    using chunk_autoArrange_trigger[where s = store0 and i = "''k''" and chunk = chunkK
        and u = ?u2] h1 h5
    by (simp add: saveChunk_def)
  have c: "snd (createChunk store0 ''n'' (Some [''b'', ''a'']) None None) =
     snd (autoArrangeCards
            (saveChunk (snd (generateCardId store0))
               \<lparr>chunk_id = fst (generateCardId store0), name = ''n'', cardIds = [''b'', ''a''],
                 purpose = ''general'', layout = defaultLayout\<rparr>)
            [''b'', ''a''] defaultLayout)"
    using chunk_autoArrange_trigger[where s = store0 and ids' = "Some [''b'', ''a'']"
        and lay' = None and nm = "''n''" and pur = None] h3
    by (simp add: Let_def)
  show ?thesis using h1 h2 h3 h4 h5 a b c by simp
qed

text \<open>
  Claim C7 as stated fails: chunk \<open>k\<close> is stored with \<open>autoArrange\<close> true and lists
  cards, but renaming it leaves card \<open>b\<close> where it was, while \<open>autoArrangeCards\<close> on the
  updated chunk would have moved it.
\<close>

theorem chunk_autoArrange_counterexample:
  "enabled (autoArrange (layout (spreadChunk chunkK (emptyChunkPatch\<lparr>q_name := Some ''x''\<rparr>)))) \<and>
   cardIds (spreadChunk chunkK (emptyChunkPatch\<lparr>q_name := Some ''x''\<rparr>)) \<noteq> [] \<and>
   cards (snd (updateChunk store0 ''k'' (emptyChunkPatch\<lparr>q_name := Some ''x''\<rparr>))) ''b'' =
     Some cardB \<and>
   cards (snd (autoArrangeCards
       (saveChunk store0 (spreadChunk chunkK (emptyChunkPatch\<lparr>q_name := Some ''x''\<rparr>)))
       (cardIds (spreadChunk chunkK (emptyChunkPatch\<lparr>q_name := Some ''x''\<rparr>)))
       (layout (spreadChunk chunkK (emptyChunkPatch\<lparr>q_name := Some ''x''\<rparr>))))) ''b'' \<noteq>
     Some cardB"
  by code_simp

section \<open>The two word counts\<close>

lemma last_dropWhile: "dropWhile P xs \<noteq> [] \<Longrightarrow> last (dropWhile P xs) = last xs"
  by (induction xs) (auto split: if_splits)

text \<open>
  A string that neither starts nor ends with a character of the class is split into
  pieces none of which is empty.
\<close>

lemma splitRuns_no_empty:
  assumes "cur \<noteq> [] \<or> (s \<noteq> [] \<and> \<not> P (hd s))" and "s \<noteq> [] \<longrightarrow> \<not> P (last s)"
  shows "[] \<notin> set (splitRuns P cur s)"
  using assms
proof (induction P cur s rule: splitRuns.induct)
  case (1 P cur)
  then show ?case by simp
next
  case (2 P cur c cs)
  show ?case
  proof (cases "P c")
    case True
    with "2.prems" have cur: "cur \<noteq> []" by simp
    from True "2.prems"(2) have cs: "cs \<noteq> []" "\<not> P (last cs)" by (auto split: if_splits)
    then have "\<not> (\<forall>x \<in> set cs. P x)" using last_in_set by blast
    then have d: "dropWhile P cs \<noteq> []" by simp
    then have "\<not> P (hd (dropWhile P cs))" by (rule hd_dropWhile)
    moreover have "\<not> P (last (dropWhile P cs))" using last_dropWhile[OF d] cs by simp
    ultimately have "[] \<notin> set (splitRuns P [] (dropWhile P cs))"
      using "2.IH"(1)[OF True] d by simp
    then show ?thesis using True cur by simp
  next
    case False
    have "[] \<notin> set (splitRuns P (cur @ [c]) cs)"
      using "2.IH"(2)[OF False] "2.prems"(2) by (auto split: if_splits)
    then show ?thesis using False by simp
  qed
qed

lemma trim_ends:
  assumes "trim s \<noteq> []"
  shows "\<not> isWhiteSpace (hd (trim s)) \<and> \<not> isWhiteSpace (last (trim s))"
proof -
  let ?d = "dropWhile isWhiteSpace s"
  let ?e = "dropWhile isWhiteSpace (rev ?d)"
  from assms have e: "?e \<noteq> []" by (simp add: trim_def)
  then have d: "?d \<noteq> []" by (metis dropWhile.simps(1) rev.simps(1))
  have "last (trim s) = hd ?e" using e by (simp add: trim_def last_rev)
  moreover have "\<not> isWhiteSpace (hd ?e)" using e by (rule hd_dropWhile)
  moreover have "hd (trim s) = last ?e" using e by (simp add: trim_def hd_rev)
  moreover have "last ?e = hd ?d" using last_dropWhile[OF e] d by (simp add: last_rev)
  moreover have "\<not> isWhiteSpace (hd ?d)" using d by (rule hd_dropWhile)
  ultimately show ?thesis by simp
qed

lemma trim_empty_iff: "trim s = [] \<longleftrightarrow> list_all isWhiteSpace s"
proof
  assume "trim s = []"
  then have a: "\<forall>x \<in> set (dropWhile isWhiteSpace s). isWhiteSpace x"
    by (simp add: trim_def)
  have "dropWhile isWhiteSpace s = []"
  proof (rule ccontr)
    assume n: "dropWhile isWhiteSpace s \<noteq> []"
    then have "\<not> isWhiteSpace (hd (dropWhile isWhiteSpace s))" by (rule hd_dropWhile)
    with a n show False using hd_in_set by blast
  qed
  then show "list_all isWhiteSpace s" by (simp add: list_all_iff)
next
  assume "list_all isWhiteSpace s"
  then show "trim s = []" by (auto simp: trim_def list_all_iff dest: set_dropWhileD)
qed

text \<open>
  Claim C10.  On every string the \<open>countWords\<close> of CardUtils.ts and the private
  \<open>countWords\<close> of the in-memory manager return the same number: \<open>0\<close> when the string
  is empty or all white space (the no-break space included), and otherwise the number
  of non-empty pieces of the trimmed string split at runs of white space.
\<close>

theorem countWords_agree:
  "countWords s = countWordsInMemory s \<and>
   countWords s =
     (if list_all isWhiteSpace s then 0
      else int (length (filter (\<lambda>w. w \<noteq> []) (splitRuns isWhiteSpace [] (trim s)))))"
proof (cases "trim s = []")
  case True
  then have "list_all isWhiteSpace s" by (simp add: trim_empty_iff)
  then show ?thesis using True by (simp add: countWords_def countWordsInMemory_def)
next
  case False
  then have w: "\<not> list_all isWhiteSpace s" by (simp add: trim_empty_iff)
  then have ne: "s \<noteq> []" by auto
  from trim_ends[OF False] False
  have "[] \<notin> set (splitRuns isWhiteSpace [] (trim s))"
    by (intro splitRuns_no_empty) auto
  then have "filter (\<lambda>w. w \<noteq> []) (splitRuns isWhiteSpace [] (trim s)) =
      splitRuns isWhiteSpace [] (trim s)"
    by (simp add: filter_id_conv) metis
  then show ?thesis using False w ne by (simp add: countWords_def countWordsInMemory_def)
qed

theorem countWords_agree_witness:
  "countWords '' a  b '' = 2 \<and> countWordsInMemory '' a  b '' = 2 \<and>
   countWords ''  '' = 0 \<and> countWordsInMemory ''  '' = 0 \<and>
   countWords [CHR 0xA0, CHR 0x09] = 0 \<and> countWordsInMemory [CHR 0xA0, CHR 0x09] = 0"
proof -
  have a: "list_all isWhiteSpace ''  '' = True" "list_all isWhiteSpace '' a  b '' = False"
    "list_all isWhiteSpace [CHR 0xA0, CHR 0x09] = True"
    by (simp_all add: isWhiteSpace_def)
  have b: "int (length (filter (\<lambda>w. w \<noteq> [])
             (splitRuns isWhiteSpace [] (trim '' a  b '')))) = 2"
    by code_simp
  from countWords_agree[of "'' a  b ''"] countWords_agree[of "''  ''"]
    countWords_agree[of "[CHR 0xA0, CHR 0x09]"]
  show ?thesis
    unfolding a b by (simp only: if_True if_False) simp
qed

end
